theory Spec2Isabelle
  imports Complex_Main
begin

section \<open>Audio denoising by wavelet shrinkage: a model of \<^verbatim>\<open>denoise.py\<close>\<close>

text \<open>
  The engine \<^verbatim>\<open>AudioDeNoise.deNoise\<close> reads a sound file block by block, decomposes every
  block with a two-level Daubechies-4 wavelet transform in periodization mode, estimates
  the noise scale of the finest detail band by the median absolute deviation, shrinks the
  detail bands by soft thresholding with the universal threshold and writes the inverse
  transform of the result.

  Sample values and coefficients are IEEE doubles in the program. They are modelled by
  the type \<open>npfloat\<close>: a finite value is a real number (in the arithmetic on samples and
  coefficients the rounding of finite results is not modelled, nor is the sign of zero),
  and the three special values that numpy produces instead of raising (\<open>inf\<close>, \<open>-inf\<close>,
  \<open>nan\<close>) are values of their own. The block size, however, is computed with every
  operation rounded to the nearest double, as Python does. Only mono input is modelled:
  a block is a one-dimensional array.
\<close>

subsection \<open>Doubles with their special values\<close>

datatype npfloat = Fin real | PosInf | NegInf | NaN

fun fl_neg :: "npfloat \<Rightarrow> npfloat" where
  "fl_neg (Fin x) = Fin (- x)"
| "fl_neg PosInf = NegInf"
| "fl_neg NegInf = PosInf"
| "fl_neg NaN = NaN"

fun fl_abs :: "npfloat \<Rightarrow> npfloat" where
  "fl_abs (Fin x) = Fin \<bar>x\<bar>"
| "fl_abs PosInf = PosInf"
| "fl_abs NegInf = PosInf"
| "fl_abs NaN = NaN"

fun fl_add :: "npfloat \<Rightarrow> npfloat \<Rightarrow> npfloat" where
  "fl_add (Fin x) (Fin y) = Fin (x + y)"
| "fl_add (Fin x) PosInf = PosInf"
| "fl_add (Fin x) NegInf = NegInf"
| "fl_add PosInf (Fin y) = PosInf"
| "fl_add PosInf PosInf = PosInf"
| "fl_add PosInf NegInf = NaN"
| "fl_add NegInf (Fin y) = NegInf"
| "fl_add NegInf PosInf = NaN"
| "fl_add NegInf NegInf = NegInf"
| "fl_add NaN b = NaN"
| "fl_add a NaN = NaN"

definition fl_sub :: "npfloat \<Rightarrow> npfloat \<Rightarrow> npfloat" where
  "fl_sub a b = fl_add a (fl_neg b)"

text \<open>The sign of a value that is not \<open>nan\<close>: \<open>-1\<close>, \<open>0\<close> or \<open>1\<close>.\<close>

fun fl_sgn :: "npfloat \<Rightarrow> int" where
  "fl_sgn (Fin x) = (if x < 0 then - 1 else if x = 0 then 0 else 1)"
| "fl_sgn PosInf = 1"
| "fl_sgn NegInf = - 1"
| "fl_sgn NaN = 0"

definition inf_of_sign :: "int \<Rightarrow> npfloat" where
  "inf_of_sign s = (if s = 0 then NaN else if 0 < s then PosInf else NegInf)"

fun fl_mul :: "npfloat \<Rightarrow> npfloat \<Rightarrow> npfloat" where
  "fl_mul (Fin x) (Fin y) = Fin (x * y)"
| "fl_mul NaN b = NaN"
| "fl_mul a NaN = NaN"
| "fl_mul a b = inf_of_sign (fl_sgn a * fl_sgn b)"

text \<open>
  Division as numpy performs it on doubles: \<open>0/0\<close> and \<open>inf/inf\<close> are \<open>nan\<close>, a nonzero
  value over zero is an infinity, a finite value over an infinity is zero. None of them
  raises (numpy only emits a warning).
\<close>

fun fl_div :: "npfloat \<Rightarrow> npfloat \<Rightarrow> npfloat" where
  "fl_div (Fin x) (Fin y) =
     (if y \<noteq> 0 then Fin (x / y)
      else if x = 0 then NaN
      else if 0 < x then PosInf else NegInf)"
| "fl_div NaN b = NaN"
| "fl_div a NaN = NaN"
| "fl_div (Fin x) b = Fin 0"
| "fl_div a (Fin y) = inf_of_sign (fl_sgn a * (if y < 0 then - 1 else 1))"
| "fl_div a b = NaN"

text \<open>\<^verbatim>\<open>ndarray.clip(min=0, max=None)\<close> on one element: \<open>nan\<close> stays \<open>nan\<close>.\<close>

fun clip_min0 :: "npfloat \<Rightarrow> npfloat" where
  "clip_min0 (Fin x) = Fin (max x 0)"
| "clip_min0 PosInf = PosInf"
| "clip_min0 NegInf = Fin 0"
| "clip_min0 NaN = NaN"

text \<open>\<^verbatim>\<open>np.log\<close> of a length (a non-negative integer) and \<^verbatim>\<open>np.sqrt\<close>.\<close>

definition np_log :: "nat \<Rightarrow> npfloat" where
  "np_log n = (if n = 0 then NegInf else Fin (ln (real n)))"

fun np_sqrt :: "npfloat \<Rightarrow> npfloat" where
  "np_sqrt (Fin x) = (if x < 0 then NaN else Fin (sqrt x))"
| "np_sqrt PosInf = PosInf"
| "np_sqrt NegInf = NaN"
| "np_sqrt NaN = NaN"

fun is_fin :: "npfloat \<Rightarrow> bool" where
  "is_fin (Fin x) = True"
| "is_fin a = False"

subsection \<open>The median and the median absolute deviation\<close>

text \<open>
  numpy sorts \<open>nan\<close> behind every other value; \<^verbatim>\<open>np.median\<close> returns \<open>nan\<close> for an empty
  array and for an array that holds a \<open>nan\<close>, the middle element of the sorted array when
  the length is odd and the mean of the two middle elements when it is even.
\<close>

fun fl_le :: "npfloat \<Rightarrow> npfloat \<Rightarrow> bool" where
  "fl_le (Fin x) (Fin y) = (x \<le> y)"
| "fl_le a NaN = True"
| "fl_le NaN b = False"
| "fl_le NegInf b = True"
| "fl_le a PosInf = True"
| "fl_le a b = False"

fun insort_fl :: "npfloat \<Rightarrow> npfloat list \<Rightarrow> npfloat list" where
  "insort_fl x [] = [x]"
| "insort_fl x (y # ys) = (if fl_le x y then x # y # ys else y # insort_fl x ys)"

fun sort_fl :: "npfloat list \<Rightarrow> npfloat list" where
  "sort_fl [] = []"
| "sort_fl (x # xs) = insort_fl x (sort_fl xs)"

definition np_median :: "npfloat list \<Rightarrow> npfloat" where
  "np_median arr =
     (if arr = [] then NaN
      else if NaN \<in> set arr then NaN
      else let s = sort_fl arr; n = length arr in
        if odd n then s ! (n div 2)
        else fl_div (fl_add (s ! (n div 2 - 1)) (s ! (n div 2))) (Fin 2))"

text \<open>
  \<^verbatim>\<open>mad(arr)\<close>: \<^verbatim>\<open>np.ma.array(arr).compressed()\<close> of an array without a mask is the array
  itself (flattened), so the function is the median of the absolute deviations from
  the median.
\<close>

definition compressed :: "npfloat list \<Rightarrow> npfloat list" where
  "compressed arr = arr"

definition mad :: "npfloat list \<Rightarrow> npfloat" where
  "mad arr =
     (let arr' = compressed arr;
          med = np_median arr'
      in np_median (map (\<lambda>x. fl_abs (fl_sub x med)) arr'))"

subsection \<open>Soft thresholding\<close>

text \<open>
  \<^verbatim>\<open>pywt.threshold(data, value, mode='soft')\<close> computes, elementwise,
  \<^verbatim>\<open>data * clip(1 - value/abs(data), min=0)\<close>. It checks neither the sign of \<open>value\<close>
  nor for a zero magnitude.
\<close>

definition soft :: "npfloat \<Rightarrow> npfloat \<Rightarrow> npfloat" where
  "soft v x = fl_mul x (clip_min0 (fl_sub (Fin 1) (fl_div v (fl_abs x))))"

definition threshold :: "npfloat list \<Rightarrow> npfloat \<Rightarrow> npfloat list" where
  "threshold data v = map (soft v) data"

subsection \<open>Exceptions\<close>

text \<open>
  The exceptions that reach the caller. \<open>RuntimeError msg cause\<close> is
  \<^verbatim>\<open>raise RuntimeError(msg) from cause\<close>: the original exception stays attached.
  \<open>CollaboratorError\<close> stands for whatever the noise profiler raises, of whatever class.

  \<open>builtin_class\<close> is the builtin class an exception is an instance of:
  \<^verbatim>\<open>FileNotFoundError\<close> is a subclass of \<^verbatim>\<open>OSError\<close>, of which \<^verbatim>\<open>IOError\<close> is an alias
  in Python 3; libsndfile's error class derives from \<^verbatim>\<open>RuntimeError\<close>, which is not
  an \<^verbatim>\<open>OSError\<close>.
\<close>

datatype pyclass = Class_OSError | Class_RuntimeError | Class_ValueError | Class_Exception

datatype pyerr =
    FileNotFoundError string
  | ValueError string
  | LibsndfileError string
  | CollaboratorError pyclass string
  | RuntimeError string pyerr

fun err_str :: "pyerr \<Rightarrow> string" where
  "err_str (FileNotFoundError m) = m"
| "err_str (ValueError m) = m"
| "err_str (LibsndfileError m) = m"
| "err_str (CollaboratorError k m) = m"
| "err_str (RuntimeError m c) = m"

fun builtin_class :: "pyerr \<Rightarrow> pyclass" where
  "builtin_class (FileNotFoundError m) = Class_OSError"
| "builtin_class (ValueError m) = Class_ValueError"
| "builtin_class (LibsndfileError m) = Class_RuntimeError"
| "builtin_class (CollaboratorError k m) = k"
| "builtin_class (RuntimeError m c) = Class_RuntimeError"

subsection \<open>The wavelet transform\<close>

text \<open>
  The single-level transforms \<^verbatim>\<open>dwt\<close> and \<^verbatim>\<open>idwt\<close> of PyWavelets are compiled code
  outside this repository; they are parameters of the model. What \<^verbatim>\<open>wavedec\<close> and
  \<^verbatim>\<open>waverec\<close> do around them is modelled: \<^verbatim>\<open>dwt\<close> refuses an empty array with a
  \<^verbatim>\<open>ValueError\<close>, \<^verbatim>\<open>wavedec\<close> collects the detail bands level by level and returns
  \<open>[cA_n, cD_n, ..., cD_1]\<close>, and \<^verbatim>\<open>waverec\<close> drops the last approximation coefficient
  when the approximation is one longer than the detail band and refuses any other
  mismatch.
\<close>

record wavelet_kernel =
  dwt_single :: "npfloat list \<Rightarrow> npfloat list \<times> npfloat list"
  idwt_single :: "npfloat list \<Rightarrow> npfloat list \<Rightarrow> npfloat list"

definition dwt :: "wavelet_kernel \<Rightarrow> npfloat list \<Rightarrow> pyerr + (npfloat list \<times> npfloat list)" where
  "dwt K data =
     (if data = [] then Inl (ValueError ''Value of data_len must be greater than zero.'')
      else Inr (dwt_single K data))"

fun wavedec_loop ::
  "wavelet_kernel \<Rightarrow> nat \<Rightarrow> npfloat list \<Rightarrow> npfloat list list
     \<Rightarrow> pyerr + (npfloat list \<times> npfloat list list)" where
  "wavedec_loop K 0 a coeffs_list = Inr (a, coeffs_list)"
| "wavedec_loop K (Suc n) a coeffs_list =
     (case dwt K a of
        Inl e \<Rightarrow> Inl e
      | Inr (a', d) \<Rightarrow> wavedec_loop K n a' (coeffs_list @ [d]))"

definition wavedec :: "wavelet_kernel \<Rightarrow> npfloat list \<Rightarrow> nat \<Rightarrow> pyerr + npfloat list list" where
  "wavedec K data level =
     (case wavedec_loop K level data [] of
        Inl e \<Rightarrow> Inl e
      | Inr (a, coeffs_list) \<Rightarrow> Inr (rev (coeffs_list @ [a])))"

definition idwt :: "wavelet_kernel \<Rightarrow> npfloat list \<Rightarrow> npfloat list \<Rightarrow> pyerr + npfloat list" where
  "idwt K cA cD =
     (if length cA \<noteq> length cD
      then Inl (ValueError ''Coefficients arrays must have the same size.'')
      else Inr (idwt_single K cA cD))"

fun waverec_loop :: "wavelet_kernel \<Rightarrow> npfloat list \<Rightarrow> npfloat list list \<Rightarrow> pyerr + npfloat list" where
  "waverec_loop K a [] = Inr a"
| "waverec_loop K a (d # ds) =
     (if length a = length d + 1 then
        (case idwt K (take (length d) a) d of
           Inl e \<Rightarrow> Inl e
         | Inr a' \<Rightarrow> waverec_loop K a' ds)
      else if length a \<noteq> length d then Inl (ValueError ''coefficient shape mismatch'')
      else
        (case idwt K a d of
           Inl e \<Rightarrow> Inl e
         | Inr a' \<Rightarrow> waverec_loop K a' ds))"

definition waverec :: "wavelet_kernel \<Rightarrow> npfloat list list \<Rightarrow> pyerr + npfloat list" where
  "waverec K coeffs =
     (case coeffs of
        [] \<Rightarrow> Inl (ValueError ''Coefficient list too short (minimum 1 arrays required).'')
      | a # ds \<Rightarrow> waverec_loop K a ds)"

subsection \<open>One block of the engine\<close>

text \<open>
  The body of the loop of \<^verbatim>\<open>deNoise\<close>: decomposition at level 2, \<open>sigma\<close> from the last
  coefficient array, the universal threshold from the length of the block, soft
  thresholding of \<^verbatim>\<open>coefficients[1:]\<close> and reconstruction. The value of the function is
  the array handed to \<^verbatim>\<open>of.write\<close>.
\<close>

definition universal_threshold :: "npfloat \<Rightarrow> nat \<Rightarrow> npfloat" where
  "universal_threshold sigma n = fl_mul sigma (np_sqrt (fl_mul (Fin 2) (np_log n)))"

definition shrink :: "npfloat list list \<Rightarrow> npfloat \<Rightarrow> npfloat list list" where
  "shrink coefficients thresh =
     take 1 coefficients @ map (\<lambda>i. threshold i thresh) (drop 1 coefficients)"

definition block_threshold :: "npfloat list list \<Rightarrow> npfloat list \<Rightarrow> npfloat" where
  "block_threshold coefficients block =
     (let sigma = mad (last coefficients)
      in universal_threshold sigma (length block))"

definition process_block :: "wavelet_kernel \<Rightarrow> npfloat list \<Rightarrow> pyerr + npfloat list" where
  "process_block K block =
     (case wavedec K block 2 of
        Inl e \<Rightarrow> Inl e
      | Inr coefficients \<Rightarrow>
          (let thresh = block_threshold coefficients block
           in waverec K (shrink coefficients thresh)))"

subsection \<open>Reading in blocks\<close>

text \<open>
  \<^verbatim>\<open>soundfile.blocks(file, blocksize)\<close> is a generator: while frames remain it reads
  \<open>min blocksize frames\<close> of them and yields them. With \<open>blocksize = 0\<close> and a non-empty
  file it yields empty blocks for ever. The loop that consumes it is modelled together
  with its body; the value \<open>None\<close> stands for a loop that never ends, \<open>Some (Inl e)\<close> for
  an exception of the body and \<open>Some (Inr ys)\<close> for the results of the body in order.
\<close>

partial_function (option) for_blocks ::
  "('a list \<Rightarrow> pyerr + 'b) \<Rightarrow> nat \<Rightarrow> 'a list \<Rightarrow> (pyerr + 'b list) option" where
  "for_blocks body blocksize frames =
     (if frames = [] then Some (Inr [])
      else
        (case body (take blocksize frames) of
           Inl e \<Rightarrow> Some (Inl e)
         | Inr y \<Rightarrow>
             Option.bind (for_blocks body blocksize (drop blocksize frames))
               (\<lambda>r. Some (case r of Inl e \<Rightarrow> Inl e | Inr ys \<Rightarrow> Inr (y # ys)))))"


subsection \<open>The engine\<close>

text \<open>
  The block size is \<^verbatim>\<open>int(rate * info.duration * 0.10)\<close>, computed in doubles. Every
  operation on doubles returns the exact result rounded to the nearest double, ties to
  the even significand (\<open>fl64\<close>): a double other than zero is an integer of 53 bits times
  a power of two. Overflow and subnormal results are not modelled; they do not arise
  from sample counts and sample rates. \<^verbatim>\<open>0.10\<close> is the double nearest to one tenth.
\<close>

definition round_half_even :: "real \<Rightarrow> int" where
  "round_half_even x =
     (let f = \<lfloor>x\<rfloor>; r = x - of_int f
      in if r < 1 / 2 then f else if 1 / 2 < r then f + 1 else if even f then f else f + 1)"

definition fl64 :: "real \<Rightarrow> real" where
  "fl64 x =
     (if x = 0 then 0
      else let e = \<lfloor>log 2 \<bar>x\<bar>\<rfloor> - 52
           in sgn x * of_int (round_half_even (\<bar>x\<bar> / 2 powi e)) * 2 powi e)"

definition double_0_10 :: real where
  "double_0_10 = fl64 (1 / 10)"

text \<open>
  A mono sound file: its sample rate and its samples. \<^verbatim>\<open>info.duration\<close> is the number
  of frames over the sample rate, a division of doubles. Python's \<^verbatim>\<open>int\<close> truncates
  towards zero.
\<close>

record sound_file =
  samplerate :: nat
  samples :: "real list"

definition duration :: "sound_file \<Rightarrow> real" where
  "duration f = fl64 (real (length (samples f)) / real (samplerate f))"

definition py_int :: "real \<Rightarrow> int" where
  "py_int x = (if 0 \<le> x then \<lfloor>x\<rfloor> else \<lceil>x\<rceil>)"

definition block_product :: "nat \<Rightarrow> real \<Rightarrow> real" where
  "block_product rate dur = fl64 (fl64 (real rate * dur) * double_0_10)"

definition blockSize :: "nat \<Rightarrow> real \<Rightarrow> nat" where
  "blockSize rate dur = nat (py_int (block_product rate dur))"

definition deNoise :: "wavelet_kernel \<Rightarrow> sound_file \<Rightarrow> (pyerr + npfloat list) option" where
  "deNoise K f =
     (let rate = samplerate f;
          blocksize = blockSize rate (duration f)
      in map_option (map_sum id concat)
           (for_blocks (process_block K) blocksize (map Fin (samples f))))"

subsection \<open>The noise-profile wrappers\<close>

text \<open>
  The files the wrappers touch: a path holds a decodable sound (samples and sample
  rate) or bytes that libsndfile cannot decode (with its diagnostic), and a path may or
  may not be writable. \<^verbatim>\<open>soundfile.read\<close> and \<^verbatim>\<open>soundfile.write\<close> raise libsndfile's
  error when they fail.
\<close>

datatype file_content = Audio "real list" nat | Undecodable string

record world =
  files :: "string \<rightharpoonup> file_content"
  writable :: "string \<Rightarrow> bool"

definition path_exists :: "world \<Rightarrow> string \<Rightarrow> bool" where
  "path_exists w p = (files w p \<noteq> None)"

definition sf_read :: "world \<Rightarrow> string \<Rightarrow> pyerr + (real list \<times> nat)" where
  "sf_read w p =
     (case files w p of
        None \<Rightarrow> Inl (LibsndfileError ''Error opening file: System error.'')
      | Some (Audio data rate) \<Rightarrow> Inr (data, rate)
      | Some (Undecodable m) \<Rightarrow> Inl (LibsndfileError m))"

definition sf_write :: "world \<Rightarrow> string \<Rightarrow> real list \<Rightarrow> nat \<Rightarrow> pyerr + world" where
  "sf_write w p data rate =
     (if writable w p then Inr (w\<lparr>files := (files w)(p \<mapsto> Audio data rate)\<rparr>)
      else Inl (LibsndfileError ''Error opening file: System error.''))"

text \<open>
  \<^verbatim>\<open>lib.noiseProfiler.NoiseProfiler\<close> is not among the sources at hand: its constructor
  and its accessor are parameters, and either may raise.
\<close>

record 'p noise_lib =
  NoiseProfiler :: "real list \<Rightarrow> pyerr + 'p"
  getNoiseDataPredicted :: "'p \<Rightarrow> pyerr + real list"

record 'p AudioDeNoise =
  inputFile :: string
  noiseProfile :: "'p option"

definition not_found_msg :: "string \<Rightarrow> string" where
  "not_found_msg noiseFile = ''Noise sample not found: '' @ noiseFile"

definition read_failed_msg :: "string \<Rightarrow> pyerr \<Rightarrow> string" where
  "read_failed_msg noiseFile exc =
     ''Could not read noise sample '' @ [CHR 0x27] @ noiseFile @ [CHR 0x27] @ '': '' @ err_str exc"

definition write_failed_msg :: "string \<Rightarrow> pyerr \<Rightarrow> string" where
  "write_failed_msg outputFile exc =
     ''Could not write predicted noise to '' @ [CHR 0x27] @ outputFile @ [CHR 0x27] @ '': ''
       @ err_str exc"

definition generateNoiseProfile ::
  "'p noise_lib \<Rightarrow> 'p AudioDeNoise \<Rightarrow> world \<Rightarrow> string \<Rightarrow> pyerr + ('p AudioDeNoise \<times> world)" where
  "generateNoiseProfile L self w noiseFile =
     (if \<not> path_exists w noiseFile then Inl (FileNotFoundError (not_found_msg noiseFile))
      else
        (case sf_read w noiseFile of
           Inl exc \<Rightarrow> Inl (RuntimeError (read_failed_msg noiseFile exc) exc)
         | Inr (data, rate) \<Rightarrow>
             (case NoiseProfiler L data of
                Inl e \<Rightarrow> Inl e
              | Inr p \<Rightarrow>
                  (case getNoiseDataPredicted L p of
                     Inl e \<Rightarrow> Inl e
                   | Inr noiseSignal \<Rightarrow>
                       (case sf_write w noiseFile noiseSignal rate of
                          Inl e \<Rightarrow> Inl e
                        | Inr w' \<Rightarrow> Inr (self\<lparr>noiseProfile := Some p\<rparr>, w'))))))"

definition generateNoiseProfileTo ::
  "'p noise_lib \<Rightarrow> 'p AudioDeNoise \<Rightarrow> world \<Rightarrow> string \<Rightarrow> string
     \<Rightarrow> pyerr + ('p AudioDeNoise \<times> world)" where
  "generateNoiseProfileTo L self w noiseFile outputFile =
     (if \<not> path_exists w noiseFile then Inl (FileNotFoundError (not_found_msg noiseFile))
      else
        (case sf_read w noiseFile of
           Inl exc \<Rightarrow> Inl (RuntimeError (read_failed_msg noiseFile exc) exc)
         | Inr (data, rate) \<Rightarrow>
             (case NoiseProfiler L data of
                Inl e \<Rightarrow> Inl e
              | Inr p \<Rightarrow>
                  (case getNoiseDataPredicted L p of
                     Inl e \<Rightarrow> Inl e
                   | Inr noiseSignal \<Rightarrow>
                       (case sf_write w outputFile noiseSignal rate of
                          Inl exc \<Rightarrow> Inl (RuntimeError (write_failed_msg outputFile exc) exc)
                        | Inr w' \<Rightarrow> Inr (self\<lparr>noiseProfile := Some p\<rparr>, w'))))))"

subsection \<open>What the engine relies on in the transform\<close>

text \<open>
  In periodization mode PyWavelets computes \<open>ceil (n / 2)\<close> coefficients per band from
  \<open>n\<close> samples (\<^verbatim>\<open>dwt_coeff_len\<close>) and reconstructs \<open>2 * k\<close> samples from bands of length
  \<open>k\<close>, whatever the wavelet. The transform is linear, so it maps zeros to zeros and
  finite values to finite values.
\<close>

definition dwt_coeff_len :: "nat \<Rightarrow> nat" where
  "dwt_coeff_len n = n div 2 + (if n mod 2 \<noteq> 0 then 1 else 0)"

definition periodization_lengths :: "wavelet_kernel \<Rightarrow> bool" where
  "periodization_lengths K \<longleftrightarrow>
     (\<forall>x. x \<noteq> [] \<longrightarrow>
        length (fst (dwt_single K x)) = dwt_coeff_len (length x) \<and>
        length (snd (dwt_single K x)) = dwt_coeff_len (length x)) \<and>
     (\<forall>a d. length a = length d \<longrightarrow> length (idwt_single K a d) = 2 * length a)"

definition finite_dwt :: "wavelet_kernel \<Rightarrow> bool" where
  "finite_dwt K \<longleftrightarrow>
     (\<forall>x. list_all is_fin x \<longrightarrow>
        list_all is_fin (fst (dwt_single K x)) \<and> list_all is_fin (snd (dwt_single K x)))"

definition zero_dwt :: "wavelet_kernel \<Rightarrow> bool" where
  "zero_dwt K \<longleftrightarrow>
     (\<forall>x. list_all (\<lambda>v. v = Fin 0) x \<longrightarrow>
        list_all (\<lambda>v. v = Fin 0) (fst (dwt_single K x)) \<and>
        list_all (\<lambda>v. v = Fin 0) (snd (dwt_single K x)))"

text \<open>
  A kernel to run the engine on concrete inputs: the Haar wavelet (Daubechies-1) in
  periodization mode, where a signal of odd length is extended by its last sample.
\<close>

definition haar_c :: npfloat where
  "haar_c = Fin (sqrt 2 / 2)"

fun haar_dec :: "npfloat list \<Rightarrow> npfloat list \<times> npfloat list" where
  "haar_dec (x # y # xs) =
     (fl_mul haar_c (fl_add x y) # fst (haar_dec xs),
      fl_mul haar_c (fl_sub x y) # snd (haar_dec xs))"
| "haar_dec [x] = ([fl_mul haar_c (fl_add x x)], [fl_mul haar_c (fl_sub x x)])"
| "haar_dec [] = ([], [])"

fun haar_rec :: "npfloat list \<Rightarrow> npfloat list \<Rightarrow> npfloat list" where
  "haar_rec (a # as) (d # ds) =
     fl_mul haar_c (fl_add a d) # fl_mul haar_c (fl_sub a d) # haar_rec as ds"
| "haar_rec as ds = []"

definition haar :: wavelet_kernel where
  "haar = \<lparr>dwt_single = haar_dec, idwt_single = haar_rec\<rparr>"

subsection \<open>Concrete inputs for the wrappers\<close>

text \<open>A small world and a profiler that negates its input, to run the wrappers on.\<close>

definition demo_world :: world where
  "demo_world =
     \<lparr>files = [''noise.wav'' \<mapsto> Audio [1, 2] 8000,
               ''bad.wav'' \<mapsto> Undecodable ''Format not recognised.''],
      writable = (\<lambda>p. p \<noteq> ''readonly.wav'')\<rparr>"

definition demo_lib :: "(real list) noise_lib" where
  "demo_lib = \<lparr>NoiseProfiler = Inr, getNoiseDataPredicted = (\<lambda>d. Inr (map uminus d))\<rparr>"

definition demo_self :: "(real list) AudioDeNoise" where
  "demo_self = \<lparr>inputFile = ''input.wav'', noiseProfile = None\<rparr>"

section \<open>Properties\<close>



subsection \<open>Transform, median and threshold\<close>

lemma wavedec_2:
  "wavedec K block 2 =
     (if block = [] then Inl (ValueError ''Value of data_len must be greater than zero.'')
      else if fst (dwt_single K block) = []
        then Inl (ValueError ''Value of data_len must be greater than zero.'')
      else Inr [fst (dwt_single K (fst (dwt_single K block))),
                snd (dwt_single K (fst (dwt_single K block))),
                snd (dwt_single K block)])"
  by (simp add: wavedec_def numeral_2_eq_2 dwt_def split: prod.splits)


lemma insort_fl_same: "insort_fl (Fin a) (replicate n (Fin a)) = replicate (Suc n) (Fin a)"
  by (cases n) simp_all

lemma sort_fl_replicate: "sort_fl (replicate n (Fin a)) = replicate n (Fin a)"
  by (induction n) (simp_all add: insort_fl_same)

lemma np_median_replicate: "0 < n \<Longrightarrow> np_median (replicate n (Fin a)) = Fin a"
  by (auto simp: np_median_def sort_fl_replicate Let_def elim!: oddE)

lemma mad_replicate: "0 < n \<Longrightarrow> mad (replicate n (Fin a)) = Fin 0"
  by (simp add: mad_def compressed_def np_median_replicate fl_sub_def map_replicate)

lemma mad_Nil: "mad [] = NaN"
  by (simp add: mad_def compressed_def np_median_def)

lemma soft_formula:
  assumes "0 \<le> t" "x \<noteq> 0 \<or> 0 < t"
  shows "soft (Fin t) (Fin x) = Fin (sgn x * max (\<bar>x\<bar> - t) 0)"
  using assms
  by (auto simp: soft_def fl_sub_def max_def sgn_if field_simps)

lemma soft_zero_zero: "soft (Fin 0) (Fin 0) = NaN"
  by (simp add: soft_def fl_sub_def)

lemma soft_zero_id: "x \<noteq> 0 \<Longrightarrow> soft (Fin 0) (Fin x) = Fin x"
  by (simp add: soft_def fl_sub_def)


lemma threshold_example: "threshold [Fin (-5), Fin (-2), Fin 0, Fin 2, Fin 5] (Fin 2) = [Fin (-3), Fin 0, Fin 0, Fin 0, Fin 3]"
  by (simp add: threshold_def soft_def fl_sub_def)


lemma dwt_coeff_len_double: "2 * dwt_coeff_len n = n + n mod 2"
  by (simp add: dwt_coeff_len_def) presburger

lemma dwt_coeff_len_pos: "0 < n \<Longrightarrow> 0 < dwt_coeff_len n"
  by (simp add: dwt_coeff_len_def) presburger

lemma length_threshold: "length (threshold d t) = length d"
  by (simp add: threshold_def)

lemma shrink_3: "shrink [a, d2, d1] t = [a, threshold d2 t, threshold d1 t]"
  by (simp add: shrink_def)

lemma waverec_3:
  assumes idw: "\<And>a d. length a = length d \<Longrightarrow> length (idwt_single K a d) = 2 * length a"
    and eq: "length a2 = length d2"
    and fit: "2 * length d2 = length d1 \<or> 2 * length d2 = length d1 + 1"
  shows "\<exists>y. waverec K [a2, d2, d1] = Inr y \<and> length y = 2 * length d1"
proof -
  let ?r = "idwt_single K a2 d2"
  have r: "length ?r = 2 * length d2" using idw [OF eq] eq by simp
  have step1: "waverec K [a2, d2, d1] = waverec_loop K ?r [d1]"
    using eq by (simp add: waverec_def idwt_def)
  from fit show ?thesis
  proof
    assume "2 * length d2 = length d1"
    then have "length ?r = length d1" using r by simp
    then show ?thesis using step1 idw [of ?r d1] by (simp add: idwt_def)
  next
    assume "2 * length d2 = length d1 + 1"
    then have len: "length ?r = length d1 + 1" using r by simp
    then have "length (take (length d1) ?r) = length d1" by simp
    then show ?thesis using step1 len idw [of "take (length d1) ?r" d1]
      by (simp add: idwt_def)
  qed
qed

lemma process_block_length:
  assumes K: "periodization_lengths K" and ne: "block \<noteq> []"
  shows "\<exists>y. process_block K block = Inr y \<and> length y = length block + length block mod 2"
proof -
  let ?a1 = "fst (dwt_single K block)" and ?d1 = "snd (dwt_single K block)"
  let ?a2 = "fst (dwt_single K ?a1)" and ?d2 = "snd (dwt_single K ?a1)"
  let ?n = "length block"
  from K ne have l1: "length ?a1 = dwt_coeff_len ?n" "length ?d1 = dwt_coeff_len ?n"
    by (simp_all add: periodization_lengths_def)
  from ne have "0 < dwt_coeff_len ?n" by (simp add: dwt_coeff_len_pos)
  with l1 have a1: "?a1 \<noteq> []" by auto
  with K have l2: "length ?a2 = dwt_coeff_len (length ?a1)" "length ?d2 = dwt_coeff_len (length ?a1)"
    by (simp_all add: periodization_lengths_def)
  have idw: "\<And>a d. length a = length d \<Longrightarrow> length (idwt_single K a d) = 2 * length a"
    using K by (simp add: periodization_lengths_def)
  have wd: "wavedec K block 2 = Inr [?a2, ?d2, ?d1]"
    using ne a1 by (simp add: wavedec_2)
  define t where "t = block_threshold [?a2, ?d2, ?d1] block"
  have fit: "2 * length (threshold ?d2 t) = length (threshold ?d1 t) \<or>
             2 * length (threshold ?d2 t) = length (threshold ?d1 t) + 1"
    using l1 l2 dwt_coeff_len_double [of "dwt_coeff_len ?n"]
    by (simp add: length_threshold) presburger
  have "\<exists>y. waverec K [?a2, threshold ?d2 t, threshold ?d1 t] = Inr y \<and>
          length y = 2 * length (threshold ?d1 t)"
    by (rule waverec_3 [OF idw _ fit]) (simp_all add: l2 length_threshold)
  then show ?thesis
    using wd l1 dwt_coeff_len_double [of ?n]
    by (simp add: process_block_def shrink_3 t_def length_threshold Let_def)
qed

subsection \<open>The loop over the blocks\<close>

lemma process_block_Nil: "process_block K [] = Inl (ValueError ''Value of data_len must be greater than zero.'')"
  by (simp add: process_block_def wavedec_2)

lemma for_blocks_Nil: "for_blocks body bs [] = Some (Inr [])"
  by (simp add: for_blocks.simps)

lemma for_blocks_fail_first:
  "xs \<noteq> [] \<Longrightarrow> body (take bs xs) = Inl e \<Longrightarrow> for_blocks body bs xs = Some (Inl e)"
  by (subst for_blocks.simps) simp

lemma for_blocks_step:
  "xs \<noteq> [] \<Longrightarrow> body (take bs xs) = Inr y \<Longrightarrow> for_blocks body bs (drop bs xs) = Some (Inr ys)
    \<Longrightarrow> for_blocks body bs xs = Some (Inr (y # ys))"
  by (subst for_blocks.simps) simp

lemma for_blocks_length:
  assumes bs: "0 < bs"
    and body: "\<And>b. b \<noteq> [] \<Longrightarrow> \<exists>y. body b = Inr y \<and> length y = length b + length b mod 2"
  shows "\<exists>ys. for_blocks body bs xs = Some (Inr ys) \<and>
           length (concat ys) =
             length xs + (length xs div bs) * (bs mod 2) + (length xs mod bs) mod 2"
proof (induction "length xs" arbitrary: xs rule: less_induct)
  case less
  show ?case
  proof (cases "xs = []")
    case True
    then show ?thesis by (simp add: for_blocks_Nil)
  next
    case False
    let ?b = "take bs xs" and ?r = "drop bs xs"
    from False bs have bne: "?b \<noteq> []" by simp
    from body [OF bne] obtain y where y: "body ?b = Inr y" "length y = length ?b + length ?b mod 2"
      by blast
    from False bs have "length ?r < length xs" by simp
    from less [OF this] obtain ys where ys: "for_blocks body bs ?r = Some (Inr ys)"
      "length (concat ys) = length ?r + (length ?r div bs) * (bs mod 2) + (length ?r mod bs) mod 2"
      by blast
    have run: "for_blocks body bs xs = Some (Inr (y # ys))"
      by (rule for_blocks_step [OF False y(1) ys(1)])
    have "length (concat (y # ys)) =
            length xs + (length xs div bs) * (bs mod 2) + (length xs mod bs) mod 2"
    proof (cases "length xs < bs")
      case True
      then show ?thesis using y(2) ys(2) by simp
    next
      case False
      then have ge: "bs \<le> length xs" by simp
      have d: "length xs div bs = Suc ((length xs - bs) div bs)"
        using ge bs by (simp add: le_div_geq)
      have m: "length xs mod bs = (length xs - bs) mod bs"
        using ge by (simp add: le_mod_geq)
      show ?thesis using y(2) ys(2) ge by (simp add: d m min_def)
    qed
    with run show ?thesis by blast
  qed
qed


subsection \<open>The Haar kernel meets the contracts\<close>

lemma haar_dec_length:
  "length (fst (haar_dec x)) = dwt_coeff_len (length x) \<and>
   length (snd (haar_dec x)) = dwt_coeff_len (length x)"
  by (induction x rule: haar_dec.induct) (simp_all add: dwt_coeff_len_def)

lemma haar_rec_length: "length a = length d \<Longrightarrow> length (haar_rec a d) = 2 * length a"
  by (induction a d rule: haar_rec.induct) simp_all

lemma haar_periodization: "periodization_lengths haar"
  by (simp add: periodization_lengths_def haar_def haar_dec_length haar_rec_length)

lemma haar_dec_fin:
  "list_all is_fin x \<Longrightarrow> list_all is_fin (fst (haar_dec x)) \<and> list_all is_fin (snd (haar_dec x))"
proof (induction x rule: haar_dec.induct)
  case (1 x y xs)
  then obtain u v where "x = Fin u" "y = Fin v" by (cases x; cases y) auto
  with 1 show ?case by (simp add: haar_c_def fl_sub_def)
next
  case (2 x)
  then obtain u where "x = Fin u" by (cases x) auto
  then show ?case by (simp add: haar_c_def fl_sub_def)
qed simp

lemma haar_finite: "finite_dwt haar"
  by (simp add: finite_dwt_def haar_def haar_dec_fin)

lemma haar_dec_zero:
  "list_all (\<lambda>v. v = Fin 0) x \<Longrightarrow>
     list_all (\<lambda>v. v = Fin 0) (fst (haar_dec x)) \<and> list_all (\<lambda>v. v = Fin 0) (snd (haar_dec x))"
  by (induction x rule: haar_dec.induct) (simp_all add: haar_c_def fl_sub_def)

lemma haar_zero: "zero_dwt haar"
  by (simp add: zero_dwt_def haar_def haar_dec_zero)


subsection \<open>Block sizes in double arithmetic\<close>

lemma fl64_eval:
  assumes lo: "2 powi (e + 52) \<le> x" and hi: "x < 2 powi (e + 53)"
  shows "fl64 x = of_int (round_half_even (x / 2 powi e)) * 2 powi e"
proof -
  have "(0::real) < 2 powi (e + 52)" by simp
  with lo have pos: "0 < x" by linarith
  have a: "2 powr real_of_int (e + 52) = (2::real) powi (e + 52)"
    by (rule powr_real_of_int') simp_all
  have eq: "e + 52 + 1 = e + 53" by simp
  have b: "2 powr real_of_int (e + 52 + 1) = (2::real) powi (e + 53)"
    unfolding eq by (rule powr_real_of_int') simp_all
  have "2 powr real_of_int (e + 52) \<le> x \<and> x < 2 powr real_of_int (e + 52 + 1)"
    unfolding a b using lo hi by blast
  then have "\<lfloor>log 2 x\<rfloor> = e + 52"
    using floor_log_eq_powr_iff [of x 2 "e + 52"] pos by simp
  then show ?thesis using pos by (simp add: fl64_def Let_def)
qed



lemma double_0_10_value: "double_0_10 = 3602879701896397 / 36028797018963968"
  unfolding double_0_10_def using fl64_eval [of "(- 56)" "1 / 10"]
  by (simp add: round_half_even_def)

lemma block_product_8015_8000:
  "block_product 8000 (fl64 (real 8015 / real 8000)) = 7050068557299713 / 8796093022208"
proof -
  have d: "fl64 (real 8015 / real 8000) = 564005484583977 / 562949953421312"
    using fl64_eval [of "(- 52)" "8015 / 8000"] by (simp add: round_half_even_def)
  have p: "fl64 (real 8000 * (564005484583977 / 562949953421312)) = 8812585696624641 / 1099511627776"
    using fl64_eval [of "(- 40)" "8000 * (564005484583977 / 562949953421312)"] by (simp add: round_half_even_def)
  have q: "fl64 (8812585696624641 / 1099511627776 * (3602879701896397 / 36028797018963968)) = (7050068557299713 / 8796093022208 :: real)"
    using fl64_eval [of "(- 43)" "8812585696624641 / 1099511627776 * (3602879701896397 / 36028797018963968)"] by (simp add: round_half_even_def)
  show ?thesis unfolding block_product_def double_0_10_value d p by (rule q)
qed

lemma block_product_file_8015_8000:
  assumes "samplerate f = 8000" and "length (samples f) = 8015"
  shows "block_product (samplerate f) (duration f) = 7050068557299713 / 8796093022208"
  unfolding duration_def assms by (rule block_product_8015_8000)

lemma blockSize_8015_8000:
  assumes "samplerate f = 8000" and "length (samples f) = 8015"
  shows "blockSize (samplerate f) (duration f) = 801"
  unfolding blockSize_def block_product_file_8015_8000 [OF assms] py_int_def by simp

lemma block_product_20_10:
  "block_product 10 (fl64 (real 20 / real 10)) = 2"
proof -
  have d: "fl64 (real 20 / real 10) = 2"
    using fl64_eval [of "(- 51)" "20 / 10"] by (simp add: round_half_even_def)
  have p: "fl64 (real 10 * (2)) = 20"
    using fl64_eval [of "(- 48)" "10 * (2)"] by (simp add: round_half_even_def)
  have q: "fl64 (20 * (3602879701896397 / 36028797018963968)) = (2 :: real)"
    using fl64_eval [of "(- 51)" "20 * (3602879701896397 / 36028797018963968)"] by (simp add: round_half_even_def)
  show ?thesis unfolding block_product_def double_0_10_value d p by (rule q)
qed

lemma block_product_file_20_10:
  assumes "samplerate f = 10" and "length (samples f) = 20"
  shows "block_product (samplerate f) (duration f) = 2"
  unfolding duration_def assms by (rule block_product_20_10)

lemma blockSize_20_10:
  assumes "samplerate f = 10" and "length (samples f) = 20"
  shows "blockSize (samplerate f) (duration f) = 2"
  unfolding blockSize_def block_product_file_20_10 [OF assms] py_int_def by simp







lemma block_product_1390_44100:
  "block_product 44100 (fl64 (real 1390 / real 44100)) = 4890627720347647 / 35184372088832"
proof -
  have d: "fl64 (real 1390 / real 44100) = 2271203077385937 / 72057594037927936"
    using fl64_eval [of "(- 57)" "1390 / 44100"] by (simp add: round_half_even_def)
  have p: "fl64 (real 44100 * (2271203077385937 / 72057594037927936)) = 6113284650434559 / 4398046511104"
    using fl64_eval [of "(- 42)" "44100 * (2271203077385937 / 72057594037927936)"] by (simp add: round_half_even_def)
  have q: "fl64 (6113284650434559 / 4398046511104 * (3602879701896397 / 36028797018963968)) = (4890627720347647 / 35184372088832 :: real)"
    using fl64_eval [of "(- 45)" "6113284650434559 / 4398046511104 * (3602879701896397 / 36028797018963968)"] by (simp add: round_half_even_def)
  show ?thesis unfolding block_product_def double_0_10_value d p by (rule q)
qed

lemma block_product_file_1390_44100:
  assumes "samplerate f = 44100" and "length (samples f) = 1390"
  shows "block_product (samplerate f) (duration f) = 4890627720347647 / 35184372088832"
  unfolding duration_def assms by (rule block_product_1390_44100)

lemma blockSize_1390_44100:
  assumes "samplerate f = 44100" and "length (samples f) = 1390"
  shows "blockSize (samplerate f) (duration f) = 138"
  unfolding blockSize_def block_product_file_1390_44100 [OF assms] py_int_def by simp

lemma block_product_10_77:
  "block_product 77 (fl64 (real 10 / real 77)) = 9007199254740991 / 9007199254740992"
proof -
  have d: "fl64 (real 10 / real 77) = 2339532273958699 / 18014398509481984"
    using fl64_eval [of "(- 55)" "10 / 77"] by (simp add: round_half_even_def)
  have p: "fl64 (real 77 * (2339532273958699 / 18014398509481984)) = 5629499534213119 / 562949953421312"
    using fl64_eval [of "(- 49)" "77 * (2339532273958699 / 18014398509481984)"] by (simp add: round_half_even_def)
  have q: "fl64 (5629499534213119 / 562949953421312 * (3602879701896397 / 36028797018963968)) = (9007199254740991 / 9007199254740992 :: real)"
    using fl64_eval [of "(- 53)" "5629499534213119 / 562949953421312 * (3602879701896397 / 36028797018963968)"] by (simp add: round_half_even_def)
  show ?thesis unfolding block_product_def double_0_10_value d p by (rule q)
qed

lemma block_product_file_10_77:
  assumes "samplerate f = 77" and "length (samples f) = 10"
  shows "block_product (samplerate f) (duration f) = 9007199254740991 / 9007199254740992"
  unfolding duration_def assms by (rule block_product_10_77)

lemma blockSize_10_77:
  assumes "samplerate f = 77" and "length (samples f) = 10"
  shows "blockSize (samplerate f) (duration f) = 0"
  unfolding blockSize_def block_product_file_10_77 [OF assms] py_int_def by simp




subsection \<open>The blocks read\<close>




lemma universal_threshold_zero: "0 < n \<Longrightarrow> universal_threshold (Fin 0) n = Fin 0"
  by (simp add: universal_threshold_def np_log_def)

lemma universal_threshold_one: "universal_threshold (Fin s) 1 = Fin 0"
  by (simp add: universal_threshold_def np_log_def)

lemma mad_single: "mad [Fin x] = Fin 0"
  using mad_replicate [of 1 x] by simp

lemma soft_zero_fin: "is_fin v \<and> v \<noteq> Fin 0 \<Longrightarrow> soft (Fin 0) v = v"
  by (cases v) (simp_all add: soft_zero_id)

lemma threshold_zero_id: "list_all (\<lambda>v. is_fin v \<and> v \<noteq> Fin 0) d \<Longrightarrow> threshold d (Fin 0) = d"
  by (induction d) (simp_all add: threshold_def soft_zero_fin)

lemma soft_negative: "t < 0 \<Longrightarrow> x \<noteq> 0 \<Longrightarrow> soft (Fin t) (Fin x) = Fin (x - sgn x * t)"
  by (auto simp: soft_def fl_sub_def max_def sgn_if field_simps)

lemma threshold_all_zero:
  "list_all (\<lambda>v. v = Fin 0) d \<Longrightarrow> threshold d (Fin 0) = replicate (length d) NaN"
  by (induction d) (simp_all add: threshold_def soft_zero_zero)

lemma all_zero_replicate: "list_all (\<lambda>v. v = a) d \<Longrightarrow> d = replicate (length d) a"
  by (induction d) simp_all

lemma mad_all_zero: "d \<noteq> [] \<Longrightarrow> list_all (\<lambda>v. v = Fin 0) d \<Longrightarrow> mad d = Fin 0"
  using mad_replicate [of "length d" 0] all_zero_replicate [of "Fin 0" d] by simp

text \<open>
  Claim C9 (silence). For an all-zero block the coefficients are zero, \<open>sigma\<close> is \<open>0\<close>
  and the threshold is exactly \<open>0\<close>, as the claim says. But soft thresholding a zero
  coefficient with threshold zero divides \<open>0\<close> by \<open>0\<close>: every detail coefficient handed to
  the inverse transform is \<open>nan\<close>, not \<open>0\<close>. The approximation band stays zero.
\<close>

theorem silence_shrunk_to_nan:
  assumes K: "periodization_lengths K" and Z: "zero_dwt K"
    and ne: "block \<noteq> []" and zero: "list_all (\<lambda>v. v = Fin 0) block"
  shows "\<exists>a d2 d1. wavedec K block 2 = Inr [a, d2, d1] \<and>
           list_all (\<lambda>v. v = Fin 0) a \<and> d2 \<noteq> [] \<and> d1 \<noteq> [] \<and>
           block_threshold [a, d2, d1] block = Fin 0 \<and>
           shrink [a, d2, d1] (Fin 0) = [a, replicate (length d2) NaN, replicate (length d1) NaN] \<and>
           process_block K block =
             waverec K [a, replicate (length d2) NaN, replicate (length d1) NaN]"
proof -
  let ?a1 = "fst (dwt_single K block)" and ?d1 = "snd (dwt_single K block)"
  let ?a2 = "fst (dwt_single K ?a1)" and ?d2 = "snd (dwt_single K ?a1)"
  from K ne have l1: "length ?a1 = dwt_coeff_len (length block)"
    "length ?d1 = dwt_coeff_len (length block)"
    by (simp_all add: periodization_lengths_def)
  from ne have "0 < dwt_coeff_len (length block)" by (simp add: dwt_coeff_len_pos)
  with l1 have a1: "?a1 \<noteq> []" and d1: "?d1 \<noteq> []" by auto
  with K have "length ?d2 = dwt_coeff_len (length ?a1)"
    by (simp add: periodization_lengths_def)
  moreover from a1 have "0 < dwt_coeff_len (length ?a1)" by (simp add: dwt_coeff_len_pos)
  ultimately have d2: "?d2 \<noteq> []" by auto
  from Z zero have z1: "list_all (\<lambda>v. v = Fin 0) ?a1" "list_all (\<lambda>v. v = Fin 0) ?d1"
    by (simp_all add: zero_dwt_def)
  from Z z1(1) have z2: "list_all (\<lambda>v. v = Fin 0) ?a2" "list_all (\<lambda>v. v = Fin 0) ?d2"
    by (simp_all add: zero_dwt_def)
  have wd: "wavedec K block 2 = Inr [?a2, ?d2, ?d1]"
    using ne a1 by (simp add: wavedec_2)
  have th: "block_threshold [?a2, ?d2, ?d1] block = Fin 0"
    using ne d1 z1(2) by (simp add: block_threshold_def mad_all_zero universal_threshold_zero)
  have sh: "shrink [?a2, ?d2, ?d1] (Fin 0) =
              [?a2, replicate (length ?d2) NaN, replicate (length ?d1) NaN]"
    using z1(2) z2(2) by (simp add: shrink_3 threshold_all_zero)
  have pb: "process_block K block =
              waverec K [?a2, replicate (length ?d2) NaN, replicate (length ?d1) NaN]"
    using wd th sh by (simp add: process_block_def Let_def)
  from wd z2(1) d2 d1 th sh pb show ?thesis by blast
qed

lemma haar_silent_block: "process_block haar [Fin 0, Fin 0] = Inr [NaN, NaN]"
  by (simp add: process_block_def wavedec_2 haar_def haar_c_def fl_sub_def block_threshold_def
      mad_single universal_threshold_zero shrink_3 threshold_def soft_zero_zero waverec_def
      idwt_def inf_of_sign_def Let_def)


lemma haar_silence_loop:
  "for_blocks (process_block haar) 2 (replicate (2 * k) (Fin 0)) = Some (Inr (replicate k [NaN, NaN]))"
proof (induction k)
  case 0
  then show ?case by (simp add: for_blocks_Nil)
next
  case (Suc k)
  have "for_blocks (process_block haar) 2 (Fin 0 # Fin 0 # replicate (2 * k) (Fin 0))
          = Some (Inr ([NaN, NaN] # replicate k [NaN, NaN]))"
    by (rule for_blocks_step) (simp_all add: haar_silent_block Suc.IH)
  then show ?case by simp
qed

lemma concat_replicate_pair: "concat (replicate k [a, a]) = replicate (2 * k) a"
  by (induction k) simp_all

lemma haar_silence:
  "deNoise haar \<lparr>samplerate = 10, samples = replicate 20 0\<rparr> = Some (Inr (replicate 20 NaN))"
proof -
  have bs: "blockSize 10 (duration \<lparr>samplerate = 10, samples = replicate 20 0\<rparr>) = 2"
    using blockSize_20_10 [of "\<lparr>samplerate = 10, samples = replicate 20 0\<rparr>"] by simp
  have run: "for_blocks (process_block haar) 2 (replicate 20 (Fin 0))
          = Some (Inr (replicate 10 [NaN, NaN]))"
    using haar_silence_loop [of 10] by simp
  have "concat (replicate 10 [NaN, NaN]) = replicate 20 NaN"
    using concat_replicate_pair [of 10 NaN] by simp
  then show ?thesis
    by (simp add: deNoise_def Let_def bs run)
qed


subsection \<open>The engine\<close>

lemma deNoise_block_size_zero:
  assumes "samples f \<noteq> []" and "blockSize (samplerate f) (duration f) = 0"
  shows "deNoise K f = Some (Inl (ValueError ''Value of data_len must be greater than zero.''))"
proof -
  have "for_blocks (process_block K) 0 (map Fin (samples f))
          = Some (Inl (ValueError ''Value of data_len must be greater than zero.''))"
    using assms(1) by (intro for_blocks_fail_first) (simp_all add: process_block_Nil)
  then show ?thesis using assms(2) by (simp add: deNoise_def Let_def)
qed

text \<open>
  Claim C1 (length preservation). Whenever the block size the engine computes is
  positive, \<open>deNoise\<close> ends without an exception, but it does not write \<open>N\<close> samples for
  \<open>N\<close> samples read: every block of odd length comes back from \<^verbatim>\<open>waverec\<close> one sample
  longer, because the periodization transform pads an odd signal to even length and
  nothing trims the reconstruction. The output holds \<open>N\<close> samples plus one for every block
  of odd length: \<open>N div blockSize\<close> more when the block size is odd, and one more when the
  last, shorter block is odd. (With block size \<open>0\<close> and a non-empty file the first block
  is empty and the transform raises: \<open>deNoise_block_size_zero\<close>.)
\<close>

theorem deNoise_output_length:
  assumes K: "periodization_lengths K"
    and bs: "0 < blockSize (samplerate f) (duration f)"
  shows "\<exists>out. deNoise K f = Some (Inr out) \<and>
           length out =
             length (samples f)
             + (length (samples f) div blockSize (samplerate f) (duration f))
                 * (blockSize (samplerate f) (duration f) mod 2)
             + (length (samples f) mod blockSize (samplerate f) (duration f)) mod 2"
proof -
  let ?bs = "blockSize (samplerate f) (duration f)"
  from for_blocks_length [of ?bs "process_block K" "map Fin (samples f)", OF bs]
       process_block_length [OF K]
  obtain ys where ys: "for_blocks (process_block K) ?bs (map Fin (samples f)) = Some (Inr ys)"
    "length (concat ys) = length (map Fin (samples f))
        + (length (map Fin (samples f)) div ?bs) * (?bs mod 2)
        + (length (map Fin (samples f)) mod ?bs) mod 2"
    by blast
  then show ?thesis by (simp add: deNoise_def Let_def)
qed

lemma deNoise_10_samples_at_77_Hz:
  "deNoise K \<lparr>samplerate = 77, samples = replicate 10 x\<rparr>
     = Some (Inl (ValueError ''Value of data_len must be greater than zero.''))"
  using blockSize_10_77 [of "\<lparr>samplerate = 77, samples = replicate 10 x\<rparr>"]
  by (intro deNoise_block_size_zero) simp_all

text \<open>
  A mono file of 8015 samples at 8000 Hz: the block size is 801, ten blocks of 801 samples
  and one of 5 are read, and 8026 samples are written. A file of 1390 samples at 44100 Hz
  has block size 138 (the product in doubles is just below 139): all its blocks are even
  and 1390 samples are written.
\<close>

theorem deNoise_output_length_witness:
  "periodization_lengths haar \<and>
   0 < blockSize 8000 (duration \<lparr>samplerate = 8000, samples = replicate 8015 (1 / 2)\<rparr>) \<and>
   (\<exists>out. deNoise haar \<lparr>samplerate = 8000, samples = replicate 8015 (1 / 2)\<rparr> = Some (Inr out) \<and>
      length out = 8026) \<and>
   0 < blockSize 44100 (duration \<lparr>samplerate = 44100, samples = replicate 1390 (1 / 2)\<rparr>) \<and>
   (\<exists>out. deNoise haar \<lparr>samplerate = 44100, samples = replicate 1390 (1 / 2)\<rparr> = Some (Inr out) \<and>
      length out = 1390)"
proof -
  let ?f = "\<lparr>samplerate = 8000, samples = replicate 8015 (1 / 2)\<rparr>"
  let ?g = "\<lparr>samplerate = 44100, samples = replicate 1390 (1 / 2)\<rparr>"
  have f: "blockSize (samplerate ?f) (duration ?f) = 801" by (rule blockSize_8015_8000) simp_all
  have g: "blockSize (samplerate ?g) (duration ?g) = 138" by (rule blockSize_1390_44100) simp_all
  have pf: "0 < blockSize (samplerate ?f) (duration ?f)" unfolding f by simp
  have pg: "0 < blockSize (samplerate ?g) (duration ?g)" unfolding g by simp
  have "\<exists>out. deNoise haar ?f = Some (Inr out) \<and> length out = 8026"
    using deNoise_output_length [OF haar_periodization pf] unfolding f by simp
  moreover have "\<exists>out. deNoise haar ?g = Some (Inr out) \<and> length out = 1390"
    using deNoise_output_length [OF haar_periodization pg] unfolding g by simp
  ultimately show ?thesis using pf pg haar_periodization by simp
qed

text \<open>
  With the Haar kernel, twenty zero samples at 10 Hz come out as twenty \<open>nan\<close>.
\<close>

theorem silence_shrunk_to_nan_witness:
  "periodization_lengths haar \<and> zero_dwt haar \<and>
   [Fin 0, Fin 0] \<noteq> [] \<and> list_all (\<lambda>v. v = Fin 0) [Fin 0, Fin 0] \<and>
   (\<exists>a d2 d1. wavedec haar [Fin 0, Fin 0] 2 = Inr [a, d2, d1] \<and>
      block_threshold [a, d2, d1] [Fin 0, Fin 0] = Fin 0 \<and>
      process_block haar [Fin 0, Fin 0] =
        waverec haar [a, replicate (length d2) NaN, replicate (length d1) NaN]) \<and>
   deNoise haar \<lparr>samplerate = 10, samples = replicate 20 0\<rparr> = Some (Inr (replicate 20 NaN))"
proof -
  from silence_shrunk_to_nan [OF haar_periodization haar_zero, of "[Fin 0, Fin 0]"]
  have "\<exists>a d2 d1. wavedec haar [Fin 0, Fin 0] 2 = Inr [a, d2, d1] \<and>
      block_threshold [a, d2, d1] [Fin 0, Fin 0] = Fin 0 \<and>
      process_block haar [Fin 0, Fin 0] =
        waverec haar [a, replicate (length d2) NaN, replicate (length d1) NaN]"
    by simp blast
  then show ?thesis by (simp add: haar_periodization haar_zero haar_silence)
qed

lemma fin_single: "length d = 1 \<Longrightarrow> list_all is_fin d \<Longrightarrow> \<exists>w. d = [Fin w]"
  by (cases d; cases "hd d") auto

text \<open>
  A block of one sample is not passed through: the block \<open>[0]\<close> comes back as two
  samples, both \<open>nan\<close>.
\<close>

theorem degenerate_block_counterexample:
  "process_block haar [Fin 0] = Inr [NaN, NaN]"
  using universal_threshold_one [of 0]
  by (simp add: process_block_def wavedec_2 haar_def haar_c_def fl_sub_def block_threshold_def
      mad_single shrink_3 threshold_def soft_zero_zero waverec_def idwt_def Let_def)

text \<open>
  Claim C5 (degenerate blocks), as the code has it. A block of one sample is processed
  without an exception: \<open>ln 1 = 0\<close>, so the universal threshold of a finite \<open>sigma\<close> is
  \<open>0\<close>, the threshold the engine computes for the block is \<open>0\<close>, and soft thresholding
  with it returns an array of finite non-zero coefficients unchanged. A file without
  samples yields no block at all: the loop body, and with it the logarithm, is never
  reached, and nothing is written.
\<close>

theorem degenerate_block_safe:
  assumes K: "periodization_lengths K" and F: "finite_dwt K"
  shows "(\<exists>cs y. wavedec K [Fin v] 2 = Inr cs \<and> block_threshold cs [Fin v] = Fin 0 \<and>
            (list_all (\<lambda>c. is_fin c \<and> c \<noteq> Fin 0) d \<longrightarrow>
               threshold d (block_threshold cs [Fin v]) = d) \<and>
            process_block K [Fin v] = Inr y) \<and>
         universal_threshold (Fin s) 1 = Fin 0 \<and>
         deNoise K \<lparr>samplerate = r, samples = []\<rparr> = Some (Inr [])"
proof -
  let ?b = "[Fin v]"
  let ?a1 = "fst (dwt_single K ?b)" and ?d1 = "snd (dwt_single K ?b)"
  let ?a2 = "fst (dwt_single K ?a1)" and ?d2 = "snd (dwt_single K ?a1)"
  from K have l1: "length ?a1 = 1" "length ?d1 = 1"
    by (simp_all add: periodization_lengths_def dwt_coeff_len_def)
  then have a1: "?a1 \<noteq> []" by auto
  from F have "list_all is_fin ?d1" by (simp add: finite_dwt_def)
  with l1(2) obtain w where w: "?d1 = [Fin w]" using fin_single by blast
  have wd: "wavedec K ?b 2 = Inr [?a2, ?d2, ?d1]" using a1 by (simp add: wavedec_2)
  have th: "block_threshold [?a2, ?d2, ?d1] ?b = Fin 0"
    using universal_threshold_one [of 0] by (simp add: block_threshold_def w mad_single)
  have pass: "list_all (\<lambda>c. is_fin c \<and> c \<noteq> Fin 0) d \<longrightarrow>
               threshold d (block_threshold [?a2, ?d2, ?d1] ?b) = d"
    unfolding th by (simp add: threshold_zero_id)
  from process_block_length [OF K, of ?b] obtain y where "process_block K ?b = Inr y" by auto
  with wd th pass have "\<exists>cs y. wavedec K ?b 2 = Inr cs \<and> block_threshold cs ?b = Fin 0 \<and>
            (list_all (\<lambda>c. is_fin c \<and> c \<noteq> Fin 0) d \<longrightarrow>
               threshold d (block_threshold cs ?b) = d) \<and>
            process_block K ?b = Inr y" by blast
  moreover have "deNoise K \<lparr>samplerate = r, samples = []\<rparr> = Some (Inr [])"
    by (simp add: deNoise_def Let_def for_blocks_Nil)
  ultimately show ?thesis using universal_threshold_one [of s] by simp
qed

theorem degenerate_block_safe_witness:
  "periodization_lengths haar \<and> finite_dwt haar \<and>
   list_all (\<lambda>c. is_fin c \<and> c \<noteq> Fin 0) [Fin 3, Fin (- 4)] \<and>
   (\<exists>cs y. wavedec haar [Fin 1] 2 = Inr cs \<and> block_threshold cs [Fin 1] = Fin 0 \<and>
      threshold [Fin 3, Fin (- 4)] (block_threshold cs [Fin 1]) = [Fin 3, Fin (- 4)] \<and>
      process_block haar [Fin 1] = Inr y) \<and>
   universal_threshold (Fin 3) 1 = Fin 0 \<and>
   deNoise haar \<lparr>samplerate = 8000, samples = []\<rparr> = Some (Inr [])"
  using degenerate_block_safe [OF haar_periodization haar_finite, of 1 "[Fin 3, Fin (- 4)]" 3 8000]
  by (simp add: haar_periodization haar_finite)

text \<open>
  Claim C7 (frame of the shrinkage). When the forward transform of a block returns, it
  returns exactly three coefficient arrays; the shrinkage leaves the array at index 0 as
  it is and replaces the arrays at indices 1 and 2 by their soft-thresholded versions,
  and that coefficient set is what the inverse transform receives. In periodization mode
  the forward transform returns for every non-empty block.
\<close>

theorem shrinkage_frame:
  "(wavedec K block 2 = Inr cs \<longrightarrow>
      length cs = 3 \<and> length (shrink cs t) = 3 \<and>
      shrink cs t ! 0 = cs ! 0 \<and>
      (\<forall>i\<in>{1, 2}. shrink cs t ! i = threshold (cs ! i) t) \<and>
      process_block K block = waverec K (shrink cs (block_threshold cs block))) \<and>
   (periodization_lengths K \<longrightarrow> block \<noteq> [] \<longrightarrow> (\<exists>cs'. wavedec K block 2 = Inr cs'))"
proof -
  have "\<exists>cs'. wavedec K block 2 = Inr cs'" if K: "periodization_lengths K" and ne: "block \<noteq> []"
  proof -
    from K ne have "length (fst (dwt_single K block)) = dwt_coeff_len (length block)"
      by (simp add: periodization_lengths_def)
    moreover from ne have "0 < dwt_coeff_len (length block)" by (simp add: dwt_coeff_len_pos)
    ultimately have "fst (dwt_single K block) \<noteq> []" by auto
    with ne show ?thesis by (simp add: wavedec_2)
  qed
  moreover have "length cs = 3 \<and> length (shrink cs t) = 3 \<and>
      shrink cs t ! 0 = cs ! 0 \<and>
      (\<forall>i\<in>{1, 2}. shrink cs t ! i = threshold (cs ! i) t) \<and>
      process_block K block = waverec K (shrink cs (block_threshold cs block))"
    if wd: "wavedec K block 2 = Inr cs"
  proof -
    from wd obtain a d2 d1 where cs: "cs = [a, d2, d1]"
      by (auto simp: wavedec_2 split: if_splits)
    show ?thesis using wd by (simp add: cs shrink_3 process_block_def Let_def)
  qed
  ultimately show ?thesis by blast
qed

theorem shrinkage_frame_witness:
  "periodization_lengths haar \<and> [Fin 1, Fin 2, Fin 3] \<noteq> [] \<and>
   (\<exists>cs. wavedec haar [Fin 1, Fin 2, Fin 3] 2 = Inr cs \<and> length cs = 3 \<and>
      shrink cs (Fin 1) ! 0 = cs ! 0 \<and>
      shrink cs (Fin 1) ! 1 = threshold (cs ! 1) (Fin 1) \<and>
      shrink cs (Fin 1) ! 2 = threshold (cs ! 2) (Fin 1))"
proof -
  from shrinkage_frame [of haar "[Fin 1, Fin 2, Fin 3]"] haar_periodization
  obtain cs where cs: "wavedec haar [Fin 1, Fin 2, Fin 3] 2 = Inr cs" by blast
  with shrinkage_frame [of haar "[Fin 1, Fin 2, Fin 3]" cs "Fin 1"]
  have "length cs = 3 \<and> shrink cs (Fin 1) ! 0 = cs ! 0 \<and>
      shrink cs (Fin 1) ! 1 = threshold (cs ! 1) (Fin 1) \<and>
      shrink cs (Fin 1) ! 2 = threshold (cs ! 2) (Fin 1)" by simp
  with cs show ?thesis using haar_periodization by blast
qed





text \<open>
  The median absolute deviation of an empty array is \<open>nan\<close> (the median of an empty array),
  not \<open>0\<close>.
\<close>

theorem mad_empty_counterexample: "mad [] \<noteq> Fin 0"
  by (simp add: mad_Nil)

text \<open>
  Claim C4 (short arrays), as the code has it. \<open>mad\<close> raises for no input; it returns \<open>nan\<close>
  for an empty array and \<open>0\<close> for an array of one finite value. With \<open>sigma = 0\<close> the
  threshold of a non-empty block is \<open>0\<close>, and soft thresholding with \<open>0\<close> returns an
  array of finite non-zero coefficients unchanged.
\<close>

theorem mad_short_arrays:
  "mad [] = NaN \<and> mad [Fin x] = Fin 0 \<and>
   (0 < n \<longrightarrow> universal_threshold (Fin 0) n = Fin 0) \<and>
   (list_all (\<lambda>v. is_fin v \<and> v \<noteq> Fin 0) d \<longrightarrow> threshold d (Fin 0) = d)"
  by (simp add: mad_Nil mad_single universal_threshold_zero threshold_zero_id)

theorem mad_short_arrays_witness:
  "mad [] = NaN \<and> mad [Fin 7] = Fin 0 \<and> (0::nat) < 4 \<and>
   universal_threshold (Fin 0) 4 = Fin 0 \<and>
   list_all (\<lambda>v. is_fin v \<and> v \<noteq> Fin 0) [Fin 1, Fin (- 2)] \<and>
   threshold [Fin 1, Fin (- 2)] (Fin 0) = [Fin 1, Fin (- 2)]"
  using mad_short_arrays [of 7 4 "[Fin 1, Fin (- 2)]"] by simp

text \<open>
  A negative threshold is not refused: the element \<open>1\<close> with threshold \<open>-1\<close> becomes \<open>2\<close>.
  With threshold \<open>0\<close> a zero element becomes \<open>nan\<close>.
\<close>

theorem soft_threshold_counterexample:
  "threshold [Fin 1] (Fin (- 1)) = [Fin 2] \<and> threshold [Fin 0] (Fin 0) = [NaN]"
  by (simp add: threshold_def soft_def fl_sub_def)

text \<open>
  Claim C6 (soft thresholding), as the code has it. For finite data and a threshold
  \<open>t \<ge> 0\<close> the result at index \<open>i\<close> is \<open>sign x * max (|x| - t) 0\<close> wherever \<open>x \<noteq> 0\<close> or
  \<open>t > 0\<close>; \<open>[-5, -2, 0, 2, 5]\<close> with threshold \<open>2\<close> gives \<open>[-3, 0, 0, 0, 3]\<close>; threshold
  \<open>0\<close> returns an array without zeros unchanged; and a negative threshold raises nothing
  but moves every non-zero element away from zero by \<open>|t|\<close>.
\<close>

theorem soft_threshold_elementwise:
  "(0 \<le> t \<longrightarrow> i < length xs \<longrightarrow> (xs ! i \<noteq> 0 \<or> 0 < t) \<longrightarrow>
      threshold (map Fin xs) (Fin t) ! i = Fin (sgn (xs ! i) * max (\<bar>xs ! i\<bar> - t) 0)) \<and>
   threshold [Fin (- 5), Fin (- 2), Fin 0, Fin 2, Fin 5] (Fin 2)
     = [Fin (- 3), Fin 0, Fin 0, Fin 0, Fin 3] \<and>
   (list_all (\<lambda>x. x \<noteq> 0) xs \<longrightarrow> threshold (map Fin xs) (Fin 0) = map Fin xs) \<and>
   (t < 0 \<longrightarrow> i < length xs \<longrightarrow> xs ! i \<noteq> 0 \<longrightarrow>
      threshold (map Fin xs) (Fin t) ! i = Fin (xs ! i - sgn (xs ! i) * t))"
proof -
  have id0: "threshold (map Fin xs) (Fin 0) = map Fin xs" if "list_all (\<lambda>x. x \<noteq> 0) xs"
    using that by (induction xs) (simp_all add: threshold_def soft_zero_id)
  have nth: "threshold (map Fin xs) (Fin t) ! i = soft (Fin t) (Fin (xs ! i))" if "i < length xs"
    using that by (simp add: threshold_def)
  show ?thesis
    using id0 nth soft_formula [of t "xs ! i"] soft_negative [of t "xs ! i"] threshold_example by simp
qed

theorem soft_threshold_elementwise_witness:
  "(0::real) \<le> 2 \<and> (1::nat) < length [- 5, 3 :: real] \<and>
   threshold (map Fin [- 5, 3]) (Fin 2) ! 1 = Fin 1 \<and>
   list_all (\<lambda>x. x \<noteq> 0) [- 5, 3 :: real] \<and>
   threshold (map Fin [- 5, 3]) (Fin 0) = map Fin [- 5, 3] \<and>
   (- 1 :: real) < 0 \<and>
   threshold (map Fin [- 5, 3]) (Fin (- 1)) ! 0 = Fin (- 6)"
  using soft_threshold_elementwise [of 2 1 "[- 5, 3]"]
    soft_threshold_elementwise [of 0 0 "[- 5, 3]"]
    soft_threshold_elementwise [of "- 1" 0 "[- 5, 3]"]
  by simp

subsection \<open>The noise-profile wrappers\<close>

lemma sf_read_kind: "sf_read w p = Inl exc \<Longrightarrow> builtin_class exc = Class_RuntimeError"
  by (auto simp: sf_read_def split: option.splits file_content.splits)

lemma sf_read_exists: "sf_read w p = Inr r \<Longrightarrow> path_exists w p"
  by (auto simp: sf_read_def path_exists_def split: option.splits)

text \<open>
  An undecodable input makes the wrapper raise a \<^verbatim>\<open>RuntimeError\<close>, which is not an
  \<^verbatim>\<open>OSError\<close> (\<^verbatim>\<open>IOError\<close>).
\<close>

theorem noise_profile_error_counterexample:
  "generateNoiseProfileTo demo_lib demo_self demo_world ''bad.wav'' ''out.wav''
     = Inl (RuntimeError (read_failed_msg ''bad.wav'' (LibsndfileError ''Format not recognised.''))
              (LibsndfileError ''Format not recognised.'')) \<and>
   builtin_class
     (RuntimeError (read_failed_msg ''bad.wav'' (LibsndfileError ''Format not recognised.''))
        (LibsndfileError ''Format not recognised.'')) \<noteq> Class_OSError"
  by (simp add: generateNoiseProfileTo_def path_exists_def sf_read_def demo_world_def)

text \<open>
  Claim C8 (failures of \<^verbatim>\<open>generateNoiseProfileTo\<close>), as the code has it. A missing input
  raises \<^verbatim>\<open>FileNotFoundError\<close>, an \<^verbatim>\<open>OSError\<close>. An input that exists but cannot be read
  raises a \<^verbatim>\<open>RuntimeError\<close> whose cause is the exception of the read; a failing write of
  the output raises a \<^verbatim>\<open>RuntimeError\<close> whose cause is the exception of the write.
  Neither is an \<^verbatim>\<open>IOError\<close>. An exception of the noise profiler reaches the caller as it
  is.
\<close>

theorem noise_profile_error_kinds:
  "(\<not> path_exists w nf \<longrightarrow>
      generateNoiseProfileTo L self w nf out = Inl (FileNotFoundError (not_found_msg nf)) \<and>
      builtin_class (FileNotFoundError (not_found_msg nf)) = Class_OSError) \<and>
   (path_exists w nf \<longrightarrow> sf_read w nf = Inl exc \<longrightarrow>
      generateNoiseProfileTo L self w nf out
        = Inl (RuntimeError (read_failed_msg nf exc) exc) \<and>
      builtin_class (RuntimeError (read_failed_msg nf exc) exc) = Class_RuntimeError \<and>
      builtin_class exc = Class_RuntimeError) \<and>
   (sf_read w nf = Inr (data, rate) \<longrightarrow> NoiseProfiler L data = Inr p \<longrightarrow>
    getNoiseDataPredicted L p = Inr noiseSignal \<longrightarrow>
    sf_write w out noiseSignal rate = Inl exc' \<longrightarrow>
      generateNoiseProfileTo L self w nf out
        = Inl (RuntimeError (write_failed_msg out exc') exc') \<and>
      builtin_class (RuntimeError (write_failed_msg out exc') exc') = Class_RuntimeError) \<and>
   (sf_read w nf = Inr (data, rate) \<longrightarrow> NoiseProfiler L data = Inl e \<longrightarrow>
      generateNoiseProfileTo L self w nf out = Inl e) \<and>
   (sf_read w nf = Inr (data, rate) \<longrightarrow> NoiseProfiler L data = Inr p \<longrightarrow>
    getNoiseDataPredicted L p = Inl e \<longrightarrow>
      generateNoiseProfileTo L self w nf out = Inl e)"
  using sf_read_kind [of w nf exc] sf_read_exists [of w nf "(data, rate)"]
  by (simp add: generateNoiseProfileTo_def)

theorem noise_profile_error_kinds_witness:
  "\<not> path_exists demo_world ''missing.wav'' \<and>
   generateNoiseProfileTo demo_lib demo_self demo_world ''missing.wav'' ''out.wav''
     = Inl (FileNotFoundError ''Noise sample not found: missing.wav'') \<and>
   path_exists demo_world ''bad.wav'' \<and>
   sf_read demo_world ''bad.wav'' = Inl (LibsndfileError ''Format not recognised.'') \<and>
   generateNoiseProfileTo demo_lib demo_self demo_world ''bad.wav'' ''out.wav''
     = Inl (RuntimeError (read_failed_msg ''bad.wav'' (LibsndfileError ''Format not recognised.''))
              (LibsndfileError ''Format not recognised.'')) \<and>
   sf_read demo_world ''noise.wav'' = Inr ([1, 2], 8000) \<and>
   sf_write demo_world ''readonly.wav'' [- 1, - 2] 8000
     = Inl (LibsndfileError ''Error opening file: System error.'') \<and>
   generateNoiseProfileTo demo_lib demo_self demo_world ''noise.wav'' ''readonly.wav''
     = Inl (RuntimeError
              (write_failed_msg ''readonly.wav'' (LibsndfileError ''Error opening file: System error.''))
              (LibsndfileError ''Error opening file: System error.'')) \<and>
   generateNoiseProfileTo
       \<lparr>NoiseProfiler = (\<lambda>d. Inl (CollaboratorError Class_ValueError ''no profile'')),
        getNoiseDataPredicted = (\<lambda>p :: real list. Inr p)\<rparr>
       demo_self demo_world ''noise.wav'' ''out.wav''
     = Inl (CollaboratorError Class_ValueError ''no profile'') \<and>
   generateNoiseProfileTo
       \<lparr>NoiseProfiler = Inr,
        getNoiseDataPredicted = (\<lambda>p :: real list. Inl (CollaboratorError Class_Exception ''no prediction''))\<rparr>
       demo_self demo_world ''noise.wav'' ''out.wav''
     = Inl (CollaboratorError Class_Exception ''no prediction'')"
proof -
  have a: "\<not> path_exists demo_world ''missing.wav''"
    by (simp add: path_exists_def demo_world_def)
  have b: "path_exists demo_world ''bad.wav''"
    by (simp add: path_exists_def demo_world_def)
  have c: "sf_read demo_world ''bad.wav'' = Inl (LibsndfileError ''Format not recognised.'')"
    by (simp add: sf_read_def demo_world_def)
  have d: "sf_read demo_world ''noise.wav'' = Inr ([1, 2], 8000)"
    by (simp add: sf_read_def demo_world_def)
  have e: "sf_write demo_world ''readonly.wav'' [- 1, - 2] 8000
     = Inl (LibsndfileError ''Error opening file: System error.'')"
    by (simp add: sf_write_def demo_world_def)
  have p: "NoiseProfiler demo_lib [1, 2] = Inr [1, 2]"
    "getNoiseDataPredicted demo_lib [1, 2] = Inr [- 1, - 2]"
    by (simp_all add: demo_lib_def)
  from noise_profile_error_kinds [of demo_world "''missing.wav''" demo_lib demo_self "''out.wav''"] a
  have 1: "generateNoiseProfileTo demo_lib demo_self demo_world ''missing.wav'' ''out.wav''
     = Inl (FileNotFoundError ''Noise sample not found: missing.wav'')"
    by (simp add: not_found_msg_def)
  from noise_profile_error_kinds [of demo_world "''bad.wav''" demo_lib demo_self "''out.wav''"
      "LibsndfileError ''Format not recognised.''"] b c
  have 2: "generateNoiseProfileTo demo_lib demo_self demo_world ''bad.wav'' ''out.wav''
     = Inl (RuntimeError (read_failed_msg ''bad.wav'' (LibsndfileError ''Format not recognised.''))
              (LibsndfileError ''Format not recognised.''))"
    by blast
  from noise_profile_error_kinds [of demo_world "''noise.wav''" demo_lib demo_self "''readonly.wav''"
      _ "[1, 2]" 8000 "[1, 2]" "[- 1, - 2]" "LibsndfileError ''Error opening file: System error.''"]
    d e p
  have 3: "generateNoiseProfileTo demo_lib demo_self demo_world ''noise.wav'' ''readonly.wav''
     = Inl (RuntimeError
              (write_failed_msg ''readonly.wav'' (LibsndfileError ''Error opening file: System error.''))
              (LibsndfileError ''Error opening file: System error.''))"
    by blast
  from noise_profile_error_kinds [of demo_world "''noise.wav''"
      "\<lparr>NoiseProfiler = (\<lambda>d. Inl (CollaboratorError Class_ValueError ''no profile'')),
        getNoiseDataPredicted = (\<lambda>p :: real list. Inr p)\<rparr>" demo_self "''out.wav''"
      _ "[1, 2]" 8000 _ _ _ "CollaboratorError Class_ValueError ''no profile''"] d
  have 4: "generateNoiseProfileTo
       \<lparr>NoiseProfiler = (\<lambda>d. Inl (CollaboratorError Class_ValueError ''no profile'')),
        getNoiseDataPredicted = (\<lambda>p :: real list. Inr p)\<rparr>
       demo_self demo_world ''noise.wav'' ''out.wav''
     = Inl (CollaboratorError Class_ValueError ''no profile'')"
    by simp
  from noise_profile_error_kinds [of demo_world "''noise.wav''"
      "\<lparr>NoiseProfiler = Inr,
        getNoiseDataPredicted = (\<lambda>p :: real list. Inl (CollaboratorError Class_Exception ''no prediction''))\<rparr>"
      demo_self "''out.wav''"
      _ "[1, 2]" 8000 "[1, 2]" _ _ "CollaboratorError Class_Exception ''no prediction''"] d
  have 5: "generateNoiseProfileTo
       \<lparr>NoiseProfiler = Inr,
        getNoiseDataPredicted = (\<lambda>p :: real list. Inl (CollaboratorError Class_Exception ''no prediction''))\<rparr>
       demo_self demo_world ''noise.wav'' ''out.wav''
     = Inl (CollaboratorError Class_Exception ''no prediction'')"
    by simp
  from a b c d e 1 2 3 4 5 show ?thesis by blast
qed

text \<open>
  Claim C10 (what is overwritten). For a readable noise file at \<open>p\<close> whose profile can
  be computed, \<^verbatim>\<open>generateNoiseProfile\<close> replaces the content of \<open>p\<close> itself by the
  predicted noise (at the same sample rate) and touches no other path, whereas
  \<^verbatim>\<open>generateNoiseProfileTo\<close> with an output path other than \<open>p\<close> writes the predicted
  noise there and leaves \<open>p\<close> as it was.
\<close>

theorem noise_profile_overwrites_source:
  assumes src: "files w p = Some (Audio data rate)"
    and prof: "NoiseProfiler L data = Inr prof"
    and pred: "getNoiseDataPredicted L prof = Inr noise"
  shows "(writable w p \<longrightarrow>
           (\<exists>self' w'. generateNoiseProfile L self w p = Inr (self', w') \<and>
              files w' p = Some (Audio noise rate) \<and>
              (\<forall>q. q \<noteq> p \<longrightarrow> files w' q = files w q))) \<and>
         (writable w out \<longrightarrow> out \<noteq> p \<longrightarrow>
           (\<exists>self' w'. generateNoiseProfileTo L self w p out = Inr (self', w') \<and>
              files w' p = Some (Audio data rate) \<and>
              files w' out = Some (Audio noise rate) \<and>
              (\<forall>q. q \<noteq> out \<longrightarrow> files w' q = files w q)))"
  using assms
  by (simp add: generateNoiseProfile_def generateNoiseProfileTo_def path_exists_def
      sf_read_def sf_write_def)

theorem noise_profile_overwrites_source_witness:
  "files demo_world ''noise.wav'' = Some (Audio [1, 2] 8000) \<and>
   NoiseProfiler demo_lib [1, 2] = Inr [1, 2] \<and>
   getNoiseDataPredicted demo_lib [1, 2] = Inr [- 1, - 2] \<and>
   writable demo_world ''noise.wav'' \<and> writable demo_world ''out.wav'' \<and>
   ''out.wav'' \<noteq> ''noise.wav'' \<and>
   (\<exists>self' w'. generateNoiseProfile demo_lib demo_self demo_world ''noise.wav'' = Inr (self', w') \<and>
      files w' ''noise.wav'' = Some (Audio [- 1, - 2] 8000)) \<and>
   (\<exists>self' w'. generateNoiseProfileTo demo_lib demo_self demo_world ''noise.wav'' ''out.wav''
        = Inr (self', w') \<and>
      files w' ''noise.wav'' = Some (Audio [1, 2] 8000) \<and>
      files w' ''out.wav'' = Some (Audio [- 1, - 2] 8000))"
proof -
  have src: "files demo_world ''noise.wav'' = Some (Audio [1, 2] 8000)"
    by (simp add: demo_world_def)
  have p: "NoiseProfiler demo_lib [1, 2] = Inr [1, 2]"
    "getNoiseDataPredicted demo_lib [1, 2] = Inr [- 1, - 2]"
    by (simp_all add: demo_lib_def)
  have wr: "writable demo_world ''noise.wav''" "writable demo_world ''out.wav''"
    by (simp_all add: demo_world_def)
  have ne: "''out.wav'' \<noteq> ''noise.wav''" by simp
  from noise_profile_overwrites_source
         [OF src p, where out = "''out.wav''" and self = demo_self] wr ne
  show ?thesis using src p by blast
qed

end
